theory Spec2Isabelle
  imports Complex_Main "HOL-Library.Sublist"
begin

section \<open>The placement portal server (server.js) as HOL functions\<close>

text \<open>
  The server keeps five MongoDB collections (students, placements, companies, notifications,
  activity log) and talks to two outside services (Gmail, Cloudinary). Each route handler
  becomes a function from the request and the state of the collections to the response and
  the new state. What belongs to a library and not to this repository is a field of the
  record \<open>env\<close>: the Gmail call, the Cloudinary upload, and Mongoose's cast of a string to
  an ObjectId.

  Strings are byte strings. Case mapping and the character classes of the regular
  expressions are the ASCII ones; time stamps, password hashes, client addresses and the
  HTML bodies of the emails are left out of the records.
\<close>

subsection \<open>JavaScript strings\<close>

definition toLowerChar :: "char \<Rightarrow> char" where
  "toLowerChar c =
     (let n = (of_char c :: nat) in if 65 \<le> n \<and> n \<le> 90 then char_of (n + 32) else c)"

definition toUpperChar :: "char \<Rightarrow> char" where
  "toUpperChar c =
     (let n = (of_char c :: nat) in if 97 \<le> n \<and> n \<le> 122 then char_of (n - 32) else c)"

definition toLowerCase :: "string \<Rightarrow> string" where
  "toLowerCase s = map toLowerChar s"

definition toUpperCase :: "string \<Rightarrow> string" where
  "toUpperCase s = map toUpperChar s"

text \<open>The class \<open>\s\<close>: tab, line feed, vertical tab, form feed, carriage return, space.\<close>

definition isSpace :: "char \<Rightarrow> bool" where
  "isSpace c = (let n = (of_char c :: nat) in (9 \<le> n \<and> n \<le> 13) \<or> n = 32)"

text \<open>The class \<open>[a-z0-9]\<close> under the flag \<open>i\<close>.\<close>

definition isAlnum :: "char \<Rightarrow> bool" where
  "isAlnum c =
     (let n = (of_char c :: nat) in
        (48 \<le> n \<and> n \<le> 57) \<or> (65 \<le> n \<and> n \<le> 90) \<or> (97 \<le> n \<and> n \<le> 122))"

definition trim :: "string \<Rightarrow> string" where
  "trim s = rev (dropWhile isSpace (rev (dropWhile isSpace s)))"

text \<open>\<open>s.includes(t)\<close>: \<open>t\<close> occurs in \<open>s\<close> as a contiguous substring.\<close>

fun strIncludes :: "string \<Rightarrow> string \<Rightarrow> bool" where
  "strIncludes [] t = (t = [])"
| "strIncludes (c # cs) t = (prefix t (c # cs) \<or> strIncludes cs t)"

text \<open>
  A value that may be \<open>undefined\<close> or \<open>null\<close> is an option. \<open>truthy\<close> is JavaScript's
  test of a string-or-undefined value in a condition; \<open>jsStr\<close> is its text inside a
  template literal; \<open>orElse a b\<close> is \<open>a || b\<close>.
\<close>

definition truthy :: "string option \<Rightarrow> bool" where
  "truthy x = (case x of None \<Rightarrow> False | Some s \<Rightarrow> s \<noteq> [])"

definition jsStr :: "string option \<Rightarrow> string" where
  "jsStr x = (case x of None \<Rightarrow> ''undefined'' | Some s \<Rightarrow> s)"

definition orElse :: "string option \<Rightarrow> string option \<Rightarrow> string option" where
  "orElse a b = (if truthy a then a else b)"

text \<open>
  The filter \<open>{ $regex: new RegExp(`^${id}$`, 'i') }\<close>: the whole field equals the
  identifier up to letter case. Identifiers are roll numbers; an identifier containing a
  regular-expression metacharacter is outside this model.
\<close>

definition ciEq :: "string \<Rightarrow> string \<Rightarrow> bool" where
  "ciEq a b = (toLowerCase a = toLowerCase b)"

subsection \<open>normalizeCompanyName (server.js, lines 1207-1214)\<close>

definition suffixTokens :: "string list" where
  "suffixTokens =
     [''technologies'', ''tech'', ''solutions'', ''pvt'', ''ltd'', ''limited'', ''private'',
      ''inc'', ''llp'']"

text \<open>
  \<open>.replace(/(technologies|tech|...|llp)$/gi, '')\<close>. The pattern ends in \<open>$\<close>, so a
  match is a token that reaches the end of the string. The scan goes left to right and
  replaces the first position from which the rest of the string is one of the tokens; after
  that match the string is exhausted, so the flag \<open>g\<close> finds nothing more.
\<close>

fun replaceSuffix :: "string \<Rightarrow> string" where
  "replaceSuffix [] = []"
| "replaceSuffix (c # cs) =
     (if toLowerCase (c # cs) \<in> set suffixTokens then [] else c # replaceSuffix cs)"

definition normalizeCompanyName :: "string option \<Rightarrow> string" where
  "normalizeCompanyName name =
     (case name of
        None \<Rightarrow> []
      | Some s \<Rightarrow>
          if s = [] then []
          else trim (replaceSuffix (filter isAlnum (filter (\<lambda>c. \<not> isSpace c) (toLowerCase s)))))"

subsection \<open>The collections\<close>

datatype vstatus = Verified | Pending | Rejected

definition statusText :: "vstatus \<Rightarrow> string" where
  "statusText v = (case v of Verified \<Rightarrow> ''verified'' | Pending \<Rightarrow> ''pending''
     | Rejected \<Rightarrow> ''rejected'')"

record student =
  s_oid :: nat
  s_sno :: "nat option"
  s_id :: string
  s_name :: "string option"
  s_company :: "string option"
  s_salary :: "rat option"
  s_photo :: "string option"
  s_logo :: "string option"
  s_status :: vstatus

record placement =
  p_oid :: nat
  p_studentId :: string
  p_name :: "string option"
  p_company :: "string option"
  p_salary :: "rat option"
  p_photo :: "string option"
  p_logo :: "string option"
  p_isOriginal :: bool
  p_status :: vstatus

record company =
  c_oid :: nat
  c_name :: string
  c_logo :: "string option"

record notification =
  n_oid :: nat
  n_recipient :: string
  n_title :: string
  n_message :: string
  n_type :: string
  n_read :: bool

record logEntry =
  l_user :: string
  l_role :: string
  l_action :: string
  l_details :: string

text \<open>One call of \<open>sendEmail\<close>: the address and the subject.\<close>

record mail =
  m_to :: "string option"
  m_subject :: string

text \<open>
  \<open>outbox\<close> lists the calls of \<open>sendEmail\<close> in order, whether or not Gmail accepted them.
  \<open>nextOid\<close> is the \<open>_id\<close> the database gives to the next created document.
\<close>

record state =
  students :: "student list"
  placements :: "placement list"
  companies :: "company list"
  notifications :: "notification list"
  activityLog :: "logEntry list"
  outbox :: "mail list"
  nextOid :: nat

subsection \<open>The environment\<close>

text \<open>
  \<open>EMAIL_USER\<close> is \<open>process.env.EMAIL_USER\<close>. \<open>gmailSend m\<close> tells whether
  \<open>gmail.users.messages.send\<close> resolves for the message. \<open>cloudinaryUpload\<close> takes the
  buffer, the folder and the public id and gives \<open>secure_url\<close>, or \<open>None\<close> when the upload
  is rejected. \<open>castObjectId s\<close> is Mongoose's cast of the string \<open>s\<close> to an ObjectId
  (\<open>None\<close>: the cast throws a CastError), and \<open>oidHex\<close> is the text of an ObjectId, as the
  virtual getter \<open>doc.id\<close> gives it.
\<close>

record env =
  EMAIL_USER :: "string option"
  gmailSend :: "mail \<Rightarrow> bool"
  cloudinaryUpload :: "string \<Rightarrow> string \<Rightarrow> string \<Rightarrow> string option"
  castObjectId :: "string \<Rightarrow> nat option"
  oidHex :: "nat \<Rightarrow> string"

subsection \<open>Sessions, requests and responses\<close>

datatype role = Admin | StudentRole

definition roleText :: "role \<Rightarrow> string" where
  "roleText r = (case r of Admin \<Rightarrow> ''admin'' | StudentRole \<Rightarrow> ''student'')"

text \<open>\<open>req.session.user\<close>, as the login handler sets it.\<close>

record user =
  u_id :: string
  u_name :: "string option"
  u_role :: role

datatype verb = GET | HEAD | POST | PUT | DELETE | PATCH | OPTIONS

text \<open>
  What multer leaves in \<open>req.file\<close>: nothing, a refusal (the file filter or the size limit
  raised an error), or the buffer of the accepted file.
\<close>

datatype upload = NoFile | Refused | File string

text \<open>
  A request: the method, the segments of the path, the session, and the fields of
  \<open>req.body\<close> that the handlers read (\<open>None\<close>: the field is absent). \<open>r_salary\<close> is the
  value of \<open>parseFloat(req.body.salary)\<close>, with \<open>None\<close> for NaN.
\<close>

record request =
  r_method :: verb
  r_path :: "string list"
  r_session :: "user option"
  r_id :: "string option"
  r_type :: "string option"
  r_action :: "string option"
  r_name :: "string option"
  r_company :: "string option"
  r_salary :: "rat option"
  r_logo :: "string option"
  r_file :: upload

text \<open>
  \<open>Success\<close> is \<open>{ success: true }\<close>; \<open>Err n msg\<close> is status \<open>n\<close> with \<open>{ error: msg }\<close>;
  \<open>ServerError\<close> is status 500 with the message of the exception that was caught;
  \<open>NotFound404\<close> is the answer of the last middleware of the file.
\<close>

datatype response =
    Success
  | SuccessFlag bool
  | SuccessPlacement placement
  | SuccessPhoto string
  | Err nat string
  | ServerError
  | NotFound404
  | Redirect string

subsection \<open>Middleware (lines 426-452)\<close>

definition requireStudent :: "request \<Rightarrow> user option" where
  "requireStudent req =
     (case r_session req of
        None \<Rightarrow> None
      | Some u \<Rightarrow> if u_role u = StudentRole then Some u else None)"

definition apiPath :: "string list \<Rightarrow> bool" where
  "apiPath p = (case p of a # b # rest \<Rightarrow> a = ''api'' | _ \<Rightarrow> False)"

text \<open>\<open>requireAdmin\<close> gives the refusal, or \<open>None\<close> when it calls \<open>next()\<close>.\<close>

definition requireAdmin :: "request \<Rightarrow> response option" where
  "requireAdmin req =
     (if (case r_session req of None \<Rightarrow> False | Some u \<Rightarrow> u_role u = Admin) then None
      else if apiPath (r_path req)
        then Some (Err 401 ''Unauthorized - Admin login required'')
        else Some (Redirect ''/login''))"

subsection \<open>Helpers: sendEmail, createNotification, logActivity\<close>

text \<open>
  \<open>sendEmail\<close> (lines 145-169) catches every error of the Gmail call and returns a
  boolean; it never throws.
\<close>

definition sendEmail :: "env \<Rightarrow> string option \<Rightarrow> string \<Rightarrow> state \<Rightarrow> bool \<times> state" where
  "sendEmail e to subject st =
     (let m = \<lparr>m_to = to, m_subject = subject\<rparr>
      in (gmailSend e m, st\<lparr>outbox := outbox st @ [m]\<rparr>))"

text \<open>
  The address that \<open>createNotification\<close> computes in its local variable \<open>email\<close>
  (lines 208-214).
\<close>

definition notificationEmail :: "env \<Rightarrow> string \<Rightarrow> string option" where
  "notificationEmail e recipient =
     (if recipient = ''admin'' then EMAIL_USER e
      else Some (toLowerCase recipient @ ''@gniindia.org''))"

text \<open>
  \<open>createNotification\<close> (lines 200-220) stores the record and computes the address. The
  variable \<open>email\<close> is not read again: the function ends there, with the comment that
  emails are sent at the trigger points. \<open>createNotificationTrace\<close> gives the state at
  the end of the function together with the last value of \<open>email\<close>. The function returns
  nothing and no caller sees the variable, so \<open>createNotification\<close>, which the handlers
  call, is the state alone.
\<close>

definition createNotificationTrace ::
  "env \<Rightarrow> string \<Rightarrow> string \<Rightarrow> string \<Rightarrow> string \<Rightarrow> state \<Rightarrow> state \<times> string option" where
  "createNotificationTrace e recipient title message type st =
     (let st1 = st\<lparr>notifications := notifications st @
                  [\<lparr>n_oid = nextOid st, n_recipient = recipient, n_title = title,
                    n_message = message, n_type = type, n_read = False\<rparr>],
                nextOid := nextOid st + 1\<rparr>;
          email = notificationEmail e recipient
      in (st1, email))"

definition createNotification ::
  "env \<Rightarrow> string \<Rightarrow> string \<Rightarrow> string \<Rightarrow> string \<Rightarrow> state \<Rightarrow> state" where
  "createNotification e recipient title message type st =
     fst (createNotificationTrace e recipient title message type st)"

definition logActivity :: "request \<Rightarrow> string \<Rightarrow> string \<Rightarrow> state \<Rightarrow> state" where
  "logActivity req action details st =
     (let usr = (case r_session req of
                   None \<Rightarrow> ''Anonymous''
                 | Some u \<Rightarrow> jsStr (u_name u) @ '' ('' @ u_id u @ '')'');
          rl = (case r_session req of None \<Rightarrow> ''guest'' | Some u \<Rightarrow> roleText (u_role u))
      in st\<lparr>activityLog := activityLog st @
              [\<lparr>l_user = usr, l_role = rl, l_action = action, l_details = details\<rparr>]\<rparr>)"

subsection \<open>Mongoose calls\<close>

fun updateFirst :: "('a \<Rightarrow> bool) \<Rightarrow> ('a \<Rightarrow> 'a) \<Rightarrow> 'a list \<Rightarrow> 'a list" where
  "updateFirst P f [] = []"
| "updateFirst P f (x # xs) = (if P x then f x # xs else x # updateFirst P f xs)"

fun deleteFirst :: "('a \<Rightarrow> bool) \<Rightarrow> 'a list \<Rightarrow> 'a list" where
  "deleteFirst P [] = []"
| "deleteFirst P (x # xs) = (if P x then xs else x # deleteFirst P xs)"

definition updateMany :: "('a \<Rightarrow> bool) \<Rightarrow> ('a \<Rightarrow> 'a) \<Rightarrow> 'a list \<Rightarrow> 'a list" where
  "updateMany P f xs = map (\<lambda>x. if P x then f x else x) xs"

text \<open>
  \<open>Model.findByIdAndUpdate(id, update)\<close>: \<open>None\<close> when the cast of the id throws;
  otherwise the document as it was before the update (or null) and the collection after
  it. An absent id matches no document.
\<close>

definition findByIdAndUpdate ::
  "env \<Rightarrow> ('a \<Rightarrow> nat) \<Rightarrow> string option \<Rightarrow> ('a \<Rightarrow> 'a) \<Rightarrow> 'a list \<Rightarrow> ('a option \<times> 'a list) option" where
  "findByIdAndUpdate e oid ident f xs =
     (case ident of
        None \<Rightarrow> Some (None, xs)
      | Some s \<Rightarrow>
          (case castObjectId e s of
             None \<Rightarrow> None
           | Some i \<Rightarrow> Some (find (\<lambda>x. oid x = i) xs, updateFirst (\<lambda>x. oid x = i) f xs)))"

subsection \<open>Startup sweep: checkStudentVerification (lines 409-419)\<close>


subsection \<open>POST /api/notifications/read (lines 240-257)\<close>

definition markRead :: "env \<Rightarrow> request \<Rightarrow> state \<Rightarrow> response \<times> state" where
  "markRead e req st =
     (case r_session req of
        None \<Rightarrow> (Err 401 ''Unauthorized'', st)
      | Some u \<Rightarrow>
          let recipient = (if u_role u = Admin then ''admin'' else u_id u)
          in if truthy (r_id req)
             then (case findByIdAndUpdate e n_oid (r_id req) (\<lambda>n. n\<lparr>n_read := True\<rparr>)
                          (notifications st) of
                     None \<Rightarrow> (ServerError, st)
                   | Some (found, ns) \<Rightarrow> (Success, st\<lparr>notifications := ns\<rparr>))
             else (Success,
                   st\<lparr>notifications :=
                        updateMany (\<lambda>n. n_recipient n = recipient \<and> n_read n = False)
                          (\<lambda>n. n\<lparr>n_read := True\<rparr>) (notifications st)\<rparr>))"

subsection \<open>POST /api/placements (lines 633-679)\<close>

definition bell :: string where
  "bell = [CHR 0xF0, CHR 0x9F, CHR 0x94, CHR 0x94]"

text \<open>
  \<open>Placement.create\<close> validates the document first: \<open>studentId\<close> is required, and NaN is
  not a Number. A failed validation rejects, and the handler answers 500.
\<close>

definition addPlacement :: "env \<Rightarrow> request \<Rightarrow> state \<Rightarrow> response \<times> state" where
  "addPlacement e req st =
     (case requireStudent req of
        None \<Rightarrow> (Redirect ''/login'', st)
      | Some u \<Rightarrow>
          (case find (\<lambda>s. ciEq (s_id s) (u_id u)) (students st) of
             None \<Rightarrow> (Err 400 ''Please upload your photo first'', st)
           | Some student \<Rightarrow>
               if \<not> truthy (s_photo student)
               then (Err 400 ''Please upload your photo first'', st)
               else (case r_salary req of
                       None \<Rightarrow> (ServerError, st)
                     | Some sal \<Rightarrow>
                         if u_id u = [] then (ServerError, st)
                         else
                           let newPlacement =
                                 \<lparr>p_oid = nextOid st, p_studentId = u_id u,
                                  p_name = s_name student, p_company = r_company req,
                                  p_salary = Some sal, p_photo = s_photo student,
                                  p_logo = orElse (r_logo req) (s_logo student),
                                  p_isOriginal = False, p_status = Pending\<rparr>;
                               st1 = st\<lparr>placements := placements st @ [newPlacement],
                                        nextOid := nextOid st + 1\<rparr>;
                               st2 = createNotification e ''admin'' ''New Placement Submission''
                                       (jsStr (u_name u) @ '' ('' @ u_id u
                                          @ '') submitted placement at '' @ jsStr (r_company req))
                                       ''info'' st1;
                               st3 = snd (sendEmail e (EMAIL_USER e)
                                       (bell @ '' New Submission - GNITC Special Batch'') st2);
                               st4 = logActivity req ''ADD_PLACEMENT''
                                       (''Added placement at '' @ jsStr (r_company req)) st3
                           in (SuccessPlacement newPlacement, st4))))"

subsection \<open>DELETE /api/placements/:id (lines 682-693)\<close>

definition firstParam :: "string list \<Rightarrow> string" where
  "firstParam ps = (case ps of [] \<Rightarrow> [] | x # rest \<Rightarrow> x)"

definition deletePlacement :: "env \<Rightarrow> request \<Rightarrow> string list \<Rightarrow> state \<Rightarrow> response \<times> state" where
  "deletePlacement e req params st =
     (case requireStudent req of
        None \<Rightarrow> (Redirect ''/login'', st)
      | Some u \<Rightarrow>
          (case castObjectId e (firstParam params) of
             None \<Rightarrow> (ServerError, st)
           | Some i \<Rightarrow>
               let own = (\<lambda>p. p_oid p = i \<and> p_studentId p = u_id u \<and> p_isOriginal p = False)
               in (SuccessFlag (find own (placements st) \<noteq> None),
                   st\<lparr>placements := deleteFirst own (placements st)\<rparr>)))"

subsection \<open>POST /api/upload-photo (lines 696-727)\<close>

text \<open>
  The assignment to \<open>req.session.user.photo\<close> is left out: no handler reads that field
  of the session.
\<close>

definition uploadPhoto :: "env \<Rightarrow> request \<Rightarrow> state \<Rightarrow> response \<times> state" where
  "uploadPhoto e req st =
     (case requireStudent req of
        None \<Rightarrow> (Redirect ''/login'', st)
      | Some u \<Rightarrow>
          (case r_file req of
             Refused \<Rightarrow> (ServerError, st)
           | NoFile \<Rightarrow> (Err 400 ''No file uploaded'', st)
           | File buffer \<Rightarrow>
               (case cloudinaryUpload e buffer ''student_photos'' (u_id u) of
                  None \<Rightarrow> (ServerError, st)
                | Some photoUrl \<Rightarrow>
                    let st1 = st\<lparr>students :=
                                  updateFirst (\<lambda>s. ciEq (s_id s) (u_id u))
                                    (\<lambda>s. s\<lparr>s_photo := Some photoUrl, s_status := Pending\<rparr>)
                                    (students st)\<rparr>;
                        st2 = logActivity req ''UPLOAD_PHOTO''
                                ''Student uploaded new photo (Cloudinary)'' st1
                    in (SuccessPhoto photoUrl, st2))))"

subsection \<open>POST /api/students/create (lines 759-823)\<close>

definition star :: string where
  "star = [CHR 0xF0, CHR 0x9F, CHR 0x8C, CHR 0x9F]"

text \<open>The new record takes the default of the schema for \<open>verificationStatus\<close>: verified.\<close>

definition createStudent :: "env \<Rightarrow> request \<Rightarrow> state \<Rightarrow> response \<times> state" where
  "createStudent e req st =
     (case requireAdmin req of
        Some refusal \<Rightarrow> (refusal, st)
      | None \<Rightarrow>
          if \<not> truthy (r_id req) then (Err 400 ''Student ID is required'', st)
          else
            let ident = jsStr (r_id req)
            in if find (\<lambda>s. ciEq (s_id s) ident) (students st) \<noteq> None
               then (Err 400 ''Student ID already exists'', st)
               else
                 let newStudent =
                       \<lparr>s_oid = nextOid st, s_sno = Some (length (students st) + 1),
                        s_id = toUpperCase ident,
                        s_name = orElse (r_name req) (Some ''Student''),
                        s_company = Some [], s_salary = Some 0, s_photo = Some [],
                        s_logo = Some [], s_status = Verified\<rparr>;
                     st1 = st\<lparr>students := students st @ [newStudent],
                              nextOid := nextOid st + 1\<rparr>;
                     st2 = logActivity req ''CREATE_STUDENT''
                             (''Created student: '' @ ident @ '' ('' @ jsStr (r_name req) @ '')'')
                             st1;
                     st3 = snd (sendEmail e (Some (toLowerCase ident @ ''@gniindia.org''))
                             (star @ '' Exclusive Access: GNITC Special Batch Portal'') st2)
                 in (Success, st3))"

subsection \<open>PUT /api/students/:id (lines 826-841)\<close>

text \<open>
  A key of the update whose value is undefined is dropped by Mongoose, so the field keeps
  its value. \<open>parseFloat(salary) || 0\<close> turns NaN into 0.
\<close>

definition updateStudent :: "env \<Rightarrow> request \<Rightarrow> string list \<Rightarrow> state \<Rightarrow> response \<times> state" where
  "updateStudent e req params st =
     (case requireAdmin req of
        Some refusal \<Rightarrow> (refusal, st)
      | None \<Rightarrow>
          let ident = firstParam params;
              st1 = st\<lparr>students :=
                        updateFirst (\<lambda>s. ciEq (s_id s) ident)
                          (\<lambda>s. s\<lparr>s_name := (case r_name req of None \<Rightarrow> s_name s | Some n \<Rightarrow> Some n),
                                s_company := (case r_company req of None \<Rightarrow> s_company s
                                              | Some c \<Rightarrow> Some c),
                                s_salary := Some (case r_salary req of None \<Rightarrow> 0 | Some x \<Rightarrow> x)\<rparr>)
                          (students st)\<rparr>;
              st2 = logActivity req ''UPDATE_STUDENT'' (''Admin updated student: '' @ ident) st1
          in (Success, st2))"

subsection \<open>DELETE /api/students/:id (lines 844-878)\<close>

text \<open>The removal of a local photo file is left out: the file system is not in the state.\<close>

definition deleteStudent :: "env \<Rightarrow> request \<Rightarrow> string list \<Rightarrow> state \<Rightarrow> response \<times> state" where
  "deleteStudent e req params st =
     (case requireAdmin req of
        Some refusal \<Rightarrow> (refusal, st)
      | None \<Rightarrow>
          let ident = firstParam params;
              st1 = st\<lparr>students := deleteFirst (\<lambda>s. ciEq (s_id s) ident) (students st),
                       placements := filter (\<lambda>p. \<not> ciEq (p_studentId p) ident) (placements st)\<rparr>;
              st2 = snd (sendEmail e (Some (toLowerCase ident @ ''@gniindia.org''))
                      ''Account Deleted - GNITC Special Batch'' st1);
              st3 = logActivity req ''DELETE_STUDENT'' (''Deleted student: '' @ ident) st2
          in (Success, st3))"

subsection \<open>POST /api/admin/verify (lines 882-967)\<close>

definition checkMark :: string where
  "checkMark = [CHR 0xE2, CHR 0x9C, CHR 0x85]"

definition warningSign :: string where
  "warningSign = [CHR 0xE2, CHR 0x9A, CHR 0xA0, CHR 0xEF, CHR 0xB8, CHR 0x8F]"

text \<open>Line 885: \<open>action === 'approve' ? 'verified' : 'rejected'\<close>.\<close>

definition verifyStatus :: "string option \<Rightarrow> vstatus" where
  "verifyStatus action = (if action = Some ''approve'' then Verified else Rejected)"

text \<open>\<open>p.studentId || p.id\<close>, where \<open>p.id\<close> is the text of \<open>p._id\<close>.\<close>

definition ownerKey :: "env \<Rightarrow> placement \<Rightarrow> string" where
  "ownerKey e p = (if p_studentId p \<noteq> [] then p_studentId p else oidHex e (p_oid p))"

text \<open>Lines 961-962, which every path of the handler reaches unless an exception was thrown.\<close>

definition verifyFinish :: "request \<Rightarrow> state \<Rightarrow> response \<times> state" where
  "verifyFinish req st =
     (Success,
      logActivity req ''VERIFY''
        (jsStr (r_action req) @ '' '' @ jsStr (r_type req) @ '' '' @ jsStr (r_id req)) st)"

definition adminVerify :: "env \<Rightarrow> request \<Rightarrow> state \<Rightarrow> response \<times> state" where
  "adminVerify e req st =
     (case requireAdmin req of
        Some refusal \<Rightarrow> (refusal, st)
      | None \<Rightarrow>
          let status = verifyStatus (r_action req)
          in if r_type req = Some ''placement''
             then (case findByIdAndUpdate e p_oid (r_id req) (\<lambda>p. p\<lparr>p_status := status\<rparr>)
                          (placements st) of
                     None \<Rightarrow> (ServerError, st)
                   | Some (None, ps) \<Rightarrow> verifyFinish req (st\<lparr>placements := ps\<rparr>)
                   | Some (Some p, ps) \<Rightarrow>
                       let st1 = st\<lparr>placements := ps\<rparr>
                       in (case find (\<lambda>s. s_id s = ownerKey e p) (students st1) of
                             None \<Rightarrow> verifyFinish req st1
                           | Some student \<Rightarrow>
                               let title = (if status = Verified
                                            then checkMark @ '' Official Record: VERIFIED''
                                            else warningSign @ '' Record Needs Revision'');
                                   message = (if status = Verified
                                     then ''Great news! Your placement at '' @ jsStr (p_company p)
                                       @ '' has been verified and officially recorded.''
                                     else ''Your placement at '' @ jsStr (p_company p)
                                       @ '' was not approved. Please check details and resubmit.'');
                                   st2 = createNotification e (s_id student) title message
                                           (if status = Verified then ''success'' else ''warning'')
                                           st1;
                                   emailTo = toLowerCase (s_id student) @ ''@gniindia.org'';
                                   st3 = snd (sendEmail e (Some emailTo) title st2)
                               in verifyFinish req st3))
             else if r_type req = Some ''original''
             then (case findByIdAndUpdate e s_oid (r_id req) (\<lambda>s. s\<lparr>s_status := status\<rparr>)
                          (students st) of
                     None \<Rightarrow> (ServerError, st)
                   | Some (None, ss) \<Rightarrow> verifyFinish req (st\<lparr>students := ss\<rparr>)
                   | Some (Some s, ss) \<Rightarrow>
                       verifyFinish req
                         (createNotification e (s_id s) ''Profile Status Update''
                            (''Your profile verification status is now: ''
                               @ toUpperCase (statusText status))
                            ''info'' (st\<lparr>students := ss\<rparr>)))
             else verifyFinish req st)"

subsection \<open>The last middleware (lines 1361-1363)\<close>

definition notFoundHandler :: "state \<Rightarrow> response \<times> state" where
  "notFoundHandler st = (NotFound404, st)"

subsection \<open>The routing table\<close>

text \<open>
  Every \<open>app.get\<close>, \<open>app.post\<close>, \<open>app.put\<close>, \<open>app.delete\<close> and \<open>app.use\<close> of server.js, in
  the order of the file. Express compares the literal segments of a route without regard
  to letter case, binds a parameter (\<open>:id\<close>, \<open>:filename\<close>) to one non-empty segment, and
  answers a HEAD request with the GET route. A mounted middleware (\<open>app.use(path, ...)\<close>)
  takes every path below its mount point.
\<close>

datatype seg = Lit string | Param | Below

fun matchPath :: "seg list \<Rightarrow> string list \<Rightarrow> string list option" where
  "matchPath [] [] = Some []"
| "matchPath (Below # ps) xs = Some []"
| "matchPath (Lit l # ps) (x # xs) = (if ciEq l x then matchPath ps xs else None)"
| "matchPath (Param # ps) (x # xs) =
     (if x = [] then None else map_option (\<lambda>r. x # r) (matchPath ps xs))"
| "matchPath ps xs = None"

datatype endpoint =
    Healthz | TestEmail | GetNotifications | NotificationsRead | StaticLogos | StaticStyles
  | Favicon | Root | LoginPage | Login | ChangePassword | Logout | AuthStatus | AdminLogs | Me
  | GetPlacements | MyProfile | AddPlacement | DeletePlacement | UploadPhoto | ApiPhoto
  | ApiLogo | Photo | CreateStudent | UpdateStudent | DeleteStudent | AdminVerify
  | SendPendingReminders | AdminStudents | GetCompanies | AddCompany | DeleteCompany | ApiLogos
  | DownloadExcel | DownloadWord | PreviewWord

definition routes :: "(verb \<times> seg list \<times> endpoint) list" where
  "routes =
     [(GET, [Lit ''healthz''], Healthz),
      (GET, [Lit ''api'', Lit ''test-email''], TestEmail),
      (GET, [Lit ''api'', Lit ''notifications''], GetNotifications),
      (POST, [Lit ''api'', Lit ''notifications'', Lit ''read''], NotificationsRead),
      (GET, [Lit ''logos'', Below], StaticLogos),
      (GET, [Lit ''styles.css'', Below], StaticStyles),
      (GET, [Lit ''favicon.ico''], Favicon),
      (GET, [], Root),
      (GET, [Lit ''login''], LoginPage),
      (POST, [Lit ''api'', Lit ''login''], Login),
      (POST, [Lit ''api'', Lit ''change-password''], ChangePassword),
      (GET, [Lit ''logout''], Logout),
      (GET, [Lit ''api'', Lit ''auth'', Lit ''status''], AuthStatus),
      (GET, [Lit ''api'', Lit ''admin'', Lit ''logs''], AdminLogs),
      (GET, [Lit ''api'', Lit ''me''], Me),
      (GET, [Lit ''api'', Lit ''placements''], GetPlacements),
      (GET, [Lit ''api'', Lit ''my-profile''], MyProfile),
      (POST, [Lit ''api'', Lit ''placements''], AddPlacement),
      (DELETE, [Lit ''api'', Lit ''placements'', Param], DeletePlacement),
      (POST, [Lit ''api'', Lit ''upload-photo''], UploadPhoto),
      (GET, [Lit ''api'', Lit ''photo'', Param], ApiPhoto),
      (GET, [Lit ''api'', Lit ''logos'', Param], ApiLogo),
      (GET, [Lit ''photo'', Param], Photo),
      (POST, [Lit ''api'', Lit ''students'', Lit ''create''], CreateStudent),
      (PUT, [Lit ''api'', Lit ''students'', Param], UpdateStudent),
      (DELETE, [Lit ''api'', Lit ''students'', Param], DeleteStudent),
      (POST, [Lit ''api'', Lit ''admin'', Lit ''verify''], AdminVerify),
      (POST, [Lit ''api'', Lit ''admin'', Lit ''send-pending-reminders''], SendPendingReminders),
      (GET, [Lit ''api'', Lit ''admin'', Lit ''students''], AdminStudents),
      (GET, [Lit ''api'', Lit ''companies''], GetCompanies),
      (POST, [Lit ''api'', Lit ''companies''], AddCompany),
      (DELETE, [Lit ''api'', Lit ''companies'', Param], DeleteCompany),
      (GET, [Lit ''api'', Lit ''logos''], ApiLogos),
      (GET, [Lit ''download'', Lit ''excel''], DownloadExcel),
      (GET, [Lit ''download'', Lit ''word''], DownloadWord),
      (GET, [Lit ''preview'', Lit ''word''], PreviewWord)]"

definition methodMatches :: "verb \<Rightarrow> verb \<Rightarrow> bool" where
  "methodMatches routeMethod m = (m = routeMethod \<or> (routeMethod = GET \<and> m = HEAD))"

fun route :: "(verb \<times> seg list \<times> endpoint) list \<Rightarrow> verb \<Rightarrow> string list \<Rightarrow>
    (endpoint \<times> string list) option" where
  "route [] m path = None"
| "route ((rm, pat, ep) # rest) m path =
     (if methodMatches rm m
      then (case matchPath pat path of
              Some params \<Rightarrow> Some (ep, params)
            | None \<Rightarrow> route rest m path)
      else route rest m path)"

text \<open>
  The application. The first middleware of the file answers every OPTIONS request with
  status 200 (line 65); a request that no route takes reaches the last middleware. The
  handlers of the routes that write the student, placement and notification collections
  are the functions above; for a route whose handler is not among them the result is
  \<open>None\<close>. None of those other handlers assigns a \<open>verificationStatus\<close>: the
  assignments of server.js are in the startup sweep, in the creation of a placement, in
  the photo upload and in the admin verification, and a new student takes the default of
  the schema. The two static mounts pass on a request whose file does not exist, and no
  later route takes such a path, so it reaches the last middleware as well; since the
  files are not in the state, those two routes are among the \<open>None\<close> ones.
\<close>

datatype outcome = Preflight | Handled response

definition handle :: "env \<Rightarrow> request \<Rightarrow> state \<Rightarrow> (outcome \<times> state) option" where
  "handle e req st =
     (if r_method req = OPTIONS then Some (Preflight, st)
      else
        (case route routes (r_method req) (r_path req) of
           None \<Rightarrow> (case notFoundHandler st of (r, st') \<Rightarrow> Some (Handled r, st'))
         | Some (ep, params) \<Rightarrow>
             (if ep = NotificationsRead then
                (case markRead e req st of (r, st') \<Rightarrow> Some (Handled r, st'))
              else if ep = AddPlacement then
                (case addPlacement e req st of (r, st') \<Rightarrow> Some (Handled r, st'))
              else if ep = DeletePlacement then
                (case deletePlacement e req params st of (r, st') \<Rightarrow> Some (Handled r, st'))
              else if ep = UploadPhoto then
                (case uploadPhoto e req st of (r, st') \<Rightarrow> Some (Handled r, st'))
              else if ep = CreateStudent then
                (case createStudent e req st of (r, st') \<Rightarrow> Some (Handled r, st'))
              else if ep = UpdateStudent then
                (case updateStudent e req params st of (r, st') \<Rightarrow> Some (Handled r, st'))
              else if ep = DeleteStudent then
                (case deleteStudent e req params st of (r, st') \<Rightarrow> Some (Handled r, st'))
              else if ep = AdminVerify then
                (case adminVerify e req st of (r, st') \<Rightarrow> Some (Handled r, st'))
              else None)))"

subsection \<open>GET /download/word: the rows and their logos (lines 1216-1259)\<close>

text \<open>
  The handler puts student documents and placement documents into one array and reads
  the same field names from both.
\<close>

record row =
  row_studentId :: string
  row_name :: "string option"
  row_company :: "string option"
  row_photo :: "string option"
  row_logo :: "string option"
  row_salary :: "rat option"

definition studentRow :: "student \<Rightarrow> row" where
  "studentRow s =
     \<lparr>row_studentId = s_id s, row_name = s_name s, row_company = s_company s,
      row_photo = s_photo s, row_logo = s_logo s, row_salary = s_salary s\<rparr>"

definition placementRow :: "placement \<Rightarrow> row" where
  "placementRow p =
     \<lparr>row_studentId = p_studentId p, row_name = p_name p, row_company = p_company p,
      row_photo = p_photo p, row_logo = p_logo p, row_salary = p_salary p\<rparr>"

text \<open>
  \<open>flt\<close> is \<open>req.query.filter\<close>. The student query is \<open>{ photo: { $ne: '' } }\<close>, the
  placement query \<open>{ isOriginal: false }\<close>, and both take \<open>verificationStatus: 'verified'\<close>
  when the filter is \<open>'verified'\<close>. The students come sorted by \<open>sno\<close>; the order of the
  rows plays no part below and is that of the collections here.
\<close>

definition reportRows :: "string option \<Rightarrow> state \<Rightarrow> row list" where
  "reportRows flt st =
     (let verifiedOnly = (orElse flt (Some ''all'') = Some ''verified'')
      in map studentRow
           (filter (\<lambda>s. s_photo s \<noteq> Some [] \<and> (if verifiedOnly then s_status s = Verified else True))
              (students st))
         @ map placementRow
             (filter (\<lambda>p. p_isOriginal p = False \<and> (if verifiedOnly then p_status p = Verified else True))
                (placements st)))"

text \<open>
  \<open>companyLogoMap\<close> is a plain object filled by \<open>forEach\<close>: a later company with the same
  key overwrites an earlier one. Reading a key that was never written gives undefined,
  except for the one key made of lower-case letters that every object inherits:
  \<open>constructor\<close>, whose value is a function.
\<close>

definition companyLogoMap :: "company list \<Rightarrow> (string \<rightharpoonup> string option)" where
  "companyLogoMap cs =
     foldl (\<lambda>m c. m(normalizeCompanyName (Some (c_name c)) \<mapsto> c_logo c)) Map.empty cs"

datatype jsvalue = JsUndefined | JsString string | JsFunction

definition jsTruthy :: "jsvalue \<Rightarrow> bool" where
  "jsTruthy v = (case v of JsUndefined \<Rightarrow> False | JsString s \<Rightarrow> s \<noteq> [] | JsFunction \<Rightarrow> True)"

definition objGet :: "(string \<rightharpoonup> string option) \<Rightarrow> string \<Rightarrow> jsvalue" where
  "objGet m k =
     (case m k of
        Some (Some s) \<Rightarrow> JsString s
      | Some None \<Rightarrow> JsUndefined
      | None \<Rightarrow> if k = ''constructor'' then JsFunction else JsUndefined)"

text \<open>
  Lines 1248-1259: the value of \<open>logoUrl\<close> when the two conditionals are done. The empty
  string means that the row gets no logo.
\<close>

definition rowLogoUrl :: "(string \<rightharpoonup> string option) \<Rightarrow> row \<Rightarrow> jsvalue" where
  "rowLogoUrl m s =
     (let companyName = normalizeCompanyName (row_company s);
          logoUrl = (if companyName \<noteq> [] \<and> jsTruthy (objGet m companyName)
                     then objGet m companyName else JsString [])
      in if \<not> jsTruthy logoUrl \<and> truthy (row_logo s)
              \<and> strIncludes (jsStr (row_logo s)) ''cloudinary.com''
         then JsString (jsStr (row_logo s))
         else logoUrl)"

definition wordReportLogos :: "string option \<Rightarrow> state \<Rightarrow> jsvalue list" where
  "wordReportLogos flt st = map (rowLogoUrl (companyLogoMap (companies st))) (reportRows flt st)"

section \<open>Notions used in the statements\<close>

text \<open>
  The id of a verification request resolves when Mongoose can cast it and the collection
  named by \<open>type\<close> holds a document with that \<open>_id\<close>.
\<close>

definition resolves :: "env \<Rightarrow> request \<Rightarrow> state \<Rightarrow> bool" where
  "resolves e req st =
     (case r_id req of
        None \<Rightarrow> False
      | Some s \<Rightarrow>
          (case castObjectId e s of
             None \<Rightarrow> False
           | Some i \<Rightarrow>
               (r_type req = Some ''placement'' \<and> find (\<lambda>p. p_oid p = i) (placements st) \<noteq> None)
               \<or> (r_type req = Some ''original'' \<and> find (\<lambda>s. s_oid s = i) (students st) \<noteq> None)))"

text \<open>The verification request reaches a Mongoose call whose cast of the id throws.\<close>

definition castThrows :: "env \<Rightarrow> request \<Rightarrow> bool" where
  "castThrows e req =
     ((r_type req = Some ''placement'' \<or> r_type req = Some ''original'')
      \<and> (case r_id req of None \<Rightarrow> False | Some s \<Rightarrow> castObjectId e s = None))"



text \<open>
  The logo of a report row in the words of the specification (section 4.4). The registry
  lookup: the entry stored under the normalized name, which is the last company of the
  collection with that key, counts as a hit when the key and the logo are not empty.
  \<open>usable\<close> is the test that the row's own logo must pass to serve as the fallback.
\<close>

definition registryLogo :: "company list \<Rightarrow> string \<Rightarrow> string option" where
  "registryLogo cs k =
     (if k = [] then None
      else (case find (\<lambda>c. normalizeCompanyName (Some (c_name c)) = k) (rev cs) of
              None \<Rightarrow> None
            | Some c \<Rightarrow> if truthy (c_logo c) then c_logo c else None))"

definition resolvedLogo :: "(string \<Rightarrow> bool) \<Rightarrow> company list \<Rightarrow> row \<Rightarrow> string" where
  "resolvedLogo usable cs s =
     (case registryLogo cs (normalizeCompanyName (row_company s)) of
        Some url \<Rightarrow> url
      | None \<Rightarrow>
          if truthy (row_logo s) \<and> usable (jsStr (row_logo s)) then jsStr (row_logo s) else [])"

text \<open>The specification's test: a fully-qualified remote URL starts with its scheme.\<close>

definition specRemoteUrl :: "string \<Rightarrow> bool" where
  "specRemoteUrl s = (prefix ''http://'' s \<or> prefix ''https://'' s)"

section \<open>Example data\<close>

definition exampleEnv :: env where
  "exampleEnv =
     \<lparr>EMAIL_USER = Some ''placements@example.org'',
      gmailSend = (\<lambda>m. False),
      cloudinaryUpload = (\<lambda>buffer folder publicId.
         Some (''https://res.cloudinary.com/demo/image/upload/'' @ folder @ ''/'' @ publicId)),
      castObjectId = map_of
        [(''65f0a1b2c3d4e5f601234501'', 1), (''65f0a1b2c3d4e5f601234502'', 2),
         (''65f0a1b2c3d4e5f601234511'', 11), (''65f0a1b2c3d4e5f601234540'', 40),
         (''65f0a1b2c3d4e5f601234550'', 50)],
      oidHex = (\<lambda>n. if n = 1 then ''65f0a1b2c3d4e5f601234501''
                     else if n = 11 then ''65f0a1b2c3d4e5f601234511''
                     else if n = 40 then ''65f0a1b2c3d4e5f601234540''
                     else if n = 50 then ''65f0a1b2c3d4e5f601234550''
                     else ''65f0a1b2c3d4e5f601234502'')\<rparr>"

text \<open>
  Two students, one of them without a photo; one verified placement of the first student;
  one company with a Cloudinary logo; one unread notification. Every Gmail call of
  \<open>exampleEnv\<close> fails.
\<close>

definition exampleState :: state where
  "exampleState =
     \<lparr>students =
        [\<lparr>s_oid = 10, s_sno = Some 1, s_id = ''S001'', s_name = Some ''Asha'',
          s_company = Some ''Google'', s_salary = Some 12,
          s_photo = Some ''https://res.cloudinary.com/demo/image/upload/student_photos/S001'',
          s_logo = None, s_status = Verified\<rparr>,
         \<lparr>s_oid = 11, s_sno = Some 2, s_id = ''S002'', s_name = Some ''Ravi'',
          s_company = Some [], s_salary = Some 0, s_photo = Some [],
          s_logo = Some [], s_status = Verified\<rparr>],
      placements =
        [\<lparr>p_oid = 1, p_studentId = ''S001'', p_name = Some ''Asha'',
          p_company = Some ''Google Pvt Ltd'', p_salary = Some 12,
          p_photo = Some ''https://res.cloudinary.com/demo/image/upload/student_photos/S001'',
          p_logo = None, p_isOriginal = False, p_status = Verified\<rparr>],
      companies =
        [\<lparr>c_oid = 20, c_name = ''Google'',
          c_logo = Some ''https://res.cloudinary.com/demo/image/upload/company_logos/google.png''\<rparr>],
      notifications =
        [\<lparr>n_oid = 40, n_recipient = ''S001'', n_title = ''Profile Status Update'',
          n_message = ''Your profile verification status is now: VERIFIED'', n_type = ''info'',
          n_read = False\<rparr>],
      activityLog = [], outbox = [], nextOid = 50\<rparr>"

definition blankRequest :: request where
  "blankRequest =
     \<lparr>r_method = GET, r_path = [], r_session = None, r_id = None, r_type = None,
      r_action = None, r_name = None, r_company = None, r_salary = None, r_logo = None,
      r_file = NoFile\<rparr>"

definition asha :: user where
  "asha = \<lparr>u_id = ''S001'', u_name = Some ''Asha'', u_role = StudentRole\<rparr>"


definition administrator :: user where
  "administrator = \<lparr>u_id = ''ADMIN001'', u_name = Some ''Administrator'', u_role = Admin\<rparr>"

definition verifyRequest :: "string \<Rightarrow> string \<Rightarrow> string \<Rightarrow> request" where
  "verifyRequest ty ident action =
     blankRequest\<lparr>r_method := POST, r_path := [''api'', ''admin'', ''verify''],
       r_session := Some administrator, r_type := Some ty, r_id := Some ident,
       r_action := Some action\<rparr>"

text \<open>
  The edit of the placement of the example, as README.md documents the request: a PUT on
  the path of the placement with the new company and salary, sent by its owner.
\<close>

definition editRequest :: request where
  "editRequest =
     blankRequest\<lparr>r_method := PUT,
       r_path := [''api'', ''placements'', ''65f0a1b2c3d4e5f601234501''],
       r_session := Some asha, r_company := Some ''Microsoft'', r_salary := Some 20\<rparr>"










text \<open>A verification request for the placement of the example with a misspelt action.\<close>

definition misspeltRequest :: request where
  "misspeltRequest = verifyRequest ''placement'' ''65f0a1b2c3d4e5f601234501'' ''aprove''"

definition readRequest :: request where
  "readRequest =
     blankRequest\<lparr>r_method := POST, r_path := [''api'', ''notifications'', ''read''],
       r_session := Some asha, r_id := Some ''65f0a1b2c3d4e5f601234540''\<rparr>"

text \<open>
  Two rows of a company that the registry does not have: one whose own logo is a local
  path, one whose own logo is a remote URL on another host.
\<close>

definition localLogoRow :: row where
  "localLogoRow =
     \<lparr>row_studentId = ''S003'', row_name = Some ''Meera'', row_company = Some ''Acme'',
      row_photo = None, row_logo = Some ''/api/logos/cloudinary.com.png'',
      row_salary = Some 7\<rparr>"

definition remoteLogoRow :: row where
  "remoteLogoRow =
     \<lparr>row_studentId = ''S003'', row_name = Some ''Meera'', row_company = Some ''Acme'',
      row_photo = None, row_logo = Some ''https://example.org/logos/acme.png'',
      row_salary = Some 7\<rparr>"

section \<open>Lemmas about the helpers\<close>

lemma updateFirst_none: "find P xs = None \<Longrightarrow> updateFirst P f xs = xs"
  by (induction xs) (auto split: if_splits)

lemma find_updateFirst:
  "(\<And>x. P (f x) = P x) \<Longrightarrow> find P (updateFirst P f xs) = map_option f (find P xs)"
  by (induction xs) auto

lemma updateFirst_idem:
  "(\<And>x. P (f x) = P x) \<Longrightarrow> (\<And>x. f (f x) = f x) \<Longrightarrow>
   updateFirst P f (updateFirst P f xs) = updateFirst P f xs"
  by (induction xs) auto






lemma logActivity_proj [simp]:
  "students (logActivity req a d st) = students st"
  "placements (logActivity req a d st) = placements st"
  "companies (logActivity req a d st) = companies st"
  "notifications (logActivity req a d st) = notifications st"
  "outbox (logActivity req a d st) = outbox st"
  "nextOid (logActivity req a d st) = nextOid st"
  "length (activityLog (logActivity req a d st)) = Suc (length (activityLog st))"
  by (simp_all add: logActivity_def Let_def)

lemma createNotification_proj [simp]:
  "students (createNotification e r t m ty st) = students st"
  "placements (createNotification e r t m ty st) = placements st"
  "companies (createNotification e r t m ty st) = companies st"
  "activityLog (createNotification e r t m ty st) = activityLog st"
  "outbox (createNotification e r t m ty st) = outbox st"
  "notifications (createNotification e r t m ty st) = notifications st @
     [\<lparr>n_oid = nextOid st, n_recipient = r, n_title = t, n_message = m, n_type = ty,
       n_read = False\<rparr>]"
  "nextOid (createNotification e r t m ty st) = Suc (nextOid st)"
  by (simp_all add: createNotification_def createNotificationTrace_def Let_def)

lemma sendEmail_proj [simp]:
  "students (snd (sendEmail e to sub st)) = students st"
  "placements (snd (sendEmail e to sub st)) = placements st"
  "companies (snd (sendEmail e to sub st)) = companies st"
  "notifications (snd (sendEmail e to sub st)) = notifications st"
  "activityLog (snd (sendEmail e to sub st)) = activityLog st"
  "nextOid (snd (sendEmail e to sub st)) = nextOid st"
  "outbox (snd (sendEmail e to sub st)) = outbox st @ [\<lparr>m_to = to, m_subject = sub\<rparr>]"
  by (simp_all add: sendEmail_def Let_def)

text \<open>The state after \<open>sendEmail\<close> does not depend on what Gmail answers.\<close>

lemma sendEmail_gmail [simp]:
  "snd (sendEmail (e\<lparr>gmailSend := g\<rparr>) to sub st) = snd (sendEmail e to sub st)"
  by (simp add: sendEmail_def Let_def)

lemma createNotification_gmail [simp]:
  "createNotification (e\<lparr>gmailSend := g\<rparr>) r t m ty st = createNotification e r t m ty st"
  by (simp add: createNotification_def createNotificationTrace_def Let_def)

lemma ownerKey_gmail [simp]: "ownerKey (e\<lparr>gmailSend := g\<rparr>) p = ownerKey e p"
  by (simp add: ownerKey_def)

lemma route_put_placements:
  "route routes PUT [''api'', ''placements'', x] = None"
  by (simp add: routes_def methodMatches_def ciEq_def toLowerCase_def toLowerChar_def)

subsection \<open>The object behind companyLogoMap\<close>

lemma companyLogoMap_snoc:
  "companyLogoMap (cs @ [c]) =
     (companyLogoMap cs)(normalizeCompanyName (Some (c_name c)) \<mapsto> c_logo c)"
  by (simp add: companyLogoMap_def)

text \<open>Reading a key gives the logo of the last company that wrote it.\<close>

lemma companyLogoMap_lookup:
  "companyLogoMap cs k =
     map_option c_logo (find (\<lambda>c. normalizeCompanyName (Some (c_name c)) = k) (rev cs))"
proof (induction cs rule: rev_induct)
  case Nil
  show ?case by (simp add: companyLogoMap_def)
next
  case (snoc c cs)
  then show ?case by (simp add: companyLogoMap_snoc)
qed

subsection \<open>Which handlers write the status of a student\<close>





lemma markRead_students [simp]: "students (snd (markRead e req st)) = students st"
  by (auto simp: markRead_def Let_def split: option.splits prod.splits)

lemma addPlacement_students [simp]: "students (snd (addPlacement e req st)) = students st"
  by (auto simp: addPlacement_def Let_def split: option.splits)

lemma deletePlacement_students [simp]:
  "students (snd (deletePlacement e req ps st)) = students st"
  by (auto simp: deletePlacement_def Let_def split: option.splits)









section \<open>The claims\<close>

text \<open>
  Claim C1. A student's edit of a placement (company, salary or logo) should leave the
  placement pending, whatever its status was. The edit is the request
  \<open>PUT /api/placements/:id\<close>, which README.md documents as "Edit placement (Resets to
  Pending)". The routing table of server.js has no such route: the request reaches the
  last middleware, the answer is 404, and the state is the one before the request. In the
  example the placement was verified and is still verified after the edit request.
\<close>

theorem edit_request_reaches_not_found_handler:
  "route routes PUT [''api'', ''placements'', ''65f0a1b2c3d4e5f601234501''] = None
   \<and> handle exampleEnv editRequest exampleState = Some (Handled NotFound404, exampleState)
   \<and> map p_status (placements exampleState) = [Verified]"
  by (simp add: route_put_placements handle_def editRequest_def blankRequest_def
      notFoundHandler_def exampleState_def)

text \<open>
  Claim C2, as the specification states it, fails: a verification request by an admin
  for a well-formed id that no placement has is answered with \<open>{ success: true }\<close>,
  and an activity-log entry is written.
\<close>

theorem verify_unknown_id_reports_success:
  "resolves exampleEnv
     (verifyRequest ''placement'' ''65f0a1b2c3d4e5f601234502'' ''approve'') exampleState = False
   \<and> fst (adminVerify exampleEnv
          (verifyRequest ''placement'' ''65f0a1b2c3d4e5f601234502'' ''approve'') exampleState)
       = Success
   \<and> length (activityLog (snd (adminVerify exampleEnv
          (verifyRequest ''placement'' ''65f0a1b2c3d4e5f601234502'' ''approve'') exampleState)))
       = 1"
  by code_simp

text \<open>
  Claim C2, amended. When an admin sends a verification request whose id does not resolve
  to a record of the given type, no student or placement is changed, no notification is
  created and no email is attempted. The operation does not report a not-found failure:
  it writes the activity-log entry and answers \<open>{ success: true }\<close>, unless the type is
  \<open>placement\<close> or \<open>original\<close> and the id cannot be cast to an ObjectId, in which case it
  answers with status 500 and writes nothing. With any other type no collection is read,
  and the answer is \<open>{ success: true }\<close>.
\<close>

theorem adminVerify_unresolved_id:
  assumes admin: "requireAdmin req = None"
    and unresolved: "\<not> resolves e req st"
  shows "fst (adminVerify e req st) = (if castThrows e req then ServerError else Success)
     \<and> students (snd (adminVerify e req st)) = students st
     \<and> placements (snd (adminVerify e req st)) = placements st
     \<and> notifications (snd (adminVerify e req st)) = notifications st
     \<and> outbox (snd (adminVerify e req st)) = outbox st
     \<and> length (activityLog (snd (adminVerify e req st))) =
         (if castThrows e req then length (activityLog st) else Suc (length (activityLog st)))"
  using assms
  by (auto simp: adminVerify_def resolves_def castThrows_def findByIdAndUpdate_def
      verifyFinish_def updateFirst_none Let_def split: option.splits)

theorem adminVerify_unresolved_id_witness:
  "requireAdmin (verifyRequest ''placement'' ''65f0a1b2c3d4e5f601234502'' ''approve'') = None
   \<and> \<not> resolves exampleEnv
         (verifyRequest ''placement'' ''65f0a1b2c3d4e5f601234502'' ''approve'') exampleState
   \<and> fst (adminVerify exampleEnv
          (verifyRequest ''placement'' ''65f0a1b2c3d4e5f601234502'' ''approve'') exampleState)
       = Success
   \<and> placements (snd (adminVerify exampleEnv
          (verifyRequest ''placement'' ''65f0a1b2c3d4e5f601234502'' ''approve'') exampleState))
       = placements exampleState
   \<and> notifications (snd (adminVerify exampleEnv
          (verifyRequest ''placement'' ''65f0a1b2c3d4e5f601234502'' ''approve'') exampleState))
       = notifications exampleState"
proof -
  let ?r = "verifyRequest ''placement'' ''65f0a1b2c3d4e5f601234502'' ''approve''"
  have a: "requireAdmin ?r = None" by code_simp
  have b: "\<not> resolves exampleEnv ?r exampleState" by code_simp
  have c: "\<not> castThrows exampleEnv ?r" by code_simp
  from adminVerify_unresolved_id [OF a b] a b c show ?thesis by simp
qed




text \<open>
  Claim C4. \<open>normalizeCompanyName\<close> should give "Google Pvt Ltd" and "Google" the same
  key, so that the report finds the logo of the company "Google" for a row of "Google Pvt
  Ltd". The code removes one token at the end of the string only: the key of "Google Pvt
  Ltd" is \<open>googlepvt\<close>, and in the report of the example the row of the placement (the
  second row) gets no logo.
\<close>

theorem google_pvt_ltd_keeps_pvt:
  "normalizeCompanyName (Some ''Google Pvt Ltd'') = ''googlepvt''
   \<and> normalizeCompanyName (Some ''Google'') = ''google''
   \<and> wordReportLogos None exampleState =
       [JsString ''https://res.cloudinary.com/demo/image/upload/company_logos/google.png'',
        JsString []]"
  by code_simp

text \<open>
  Claim C5, as the specification states it, fails: \<open>createNotification\<close> attempts no
  email. After a call on the example state, whose outbox is empty, the outbox is empty.
\<close>

theorem createNotification_sends_nothing:
  "outbox (createNotification exampleEnv ''S001'' ''Profile Status Update''
     ''Your profile verification status is now: VERIFIED'' ''info'' exampleState) = []"
  by code_simp

text \<open>
  Claim C5, amended. Every call of \<open>createNotification\<close> with a recipient, a title, a
  message and a type stores one unread notification with these fields and changes no
  other collection. The function derives the address into its variable \<open>email\<close> (the
  configured admin address when the recipient is \<open>admin\<close>, otherwise the recipient in
  lower case at \<open>gniindia.org\<close>) and ends there: it attempts no email.
\<close>

theorem createNotification_persists_without_email:
  "createNotification e recipient title message type st
     = fst (createNotificationTrace e recipient title message type st)
   \<and> snd (createNotificationTrace e recipient title message type st)
       = (if recipient = ''admin'' then EMAIL_USER e
          else Some (toLowerCase recipient @ ''@gniindia.org''))
   \<and> notifications (createNotification e recipient title message type st) =
       notifications st @
         [\<lparr>n_oid = nextOid st, n_recipient = recipient, n_title = title, n_message = message,
           n_type = type, n_read = False\<rparr>]
   \<and> outbox (createNotification e recipient title message type st) = outbox st
   \<and> students (createNotification e recipient title message type st) = students st
   \<and> placements (createNotification e recipient title message type st) = placements st
   \<and> companies (createNotification e recipient title message type st) = companies st
   \<and> activityLog (createNotification e recipient title message type st) = activityLog st"
  by (simp add: createNotification_def createNotificationTrace_def notificationEmail_def
      Let_def)

text \<open>
  Claim C6, as the specification states it, fails in both directions. A row whose own
  logo is a local path that contains \<open>cloudinary.com\<close> gets that path, although it is no
  remote URL; a row whose own logo is a remote URL on another host gets no logo. The
  registry of the example has no entry for the company of the two rows.
\<close>

theorem own_logo_test_is_not_remote_url:
  "specRemoteUrl ''/api/logos/cloudinary.com.png'' = False
   \<and> rowLogoUrl (companyLogoMap (companies exampleState)) localLogoRow
       = JsString ''/api/logos/cloudinary.com.png''
   \<and> resolvedLogo specRemoteUrl (companies exampleState) localLogoRow = []
   \<and> specRemoteUrl ''https://example.org/logos/acme.png''
   \<and> rowLogoUrl (companyLogoMap (companies exampleState)) remoteLogoRow = JsString []
   \<and> resolvedLogo specRemoteUrl (companies exampleState) remoteLogoRow
       = ''https://example.org/logos/acme.png''"
  by code_simp

text \<open>
  Claim C6, amended. For every report row whose normalized company name is not the word
  \<open>constructor\<close>, the logo URL is resolved by first looking up the Company registry under
  the normalized company name; if there is no registry hit, the row's own stored logo is
  used only when it contains \<open>cloudinary.com\<close>; otherwise the row gets no logo.
\<close>

theorem rowLogoUrl_resolution:
  assumes "normalizeCompanyName (row_company s) \<noteq> ''constructor''"
  shows "rowLogoUrl (companyLogoMap cs) s =
           JsString (resolvedLogo (\<lambda>l. strIncludes l ''cloudinary.com'') cs s)"
proof (cases "find (\<lambda>c. normalizeCompanyName (Some (c_name c))
                 = normalizeCompanyName (row_company s)) (rev cs)")
  case None
  with assms show ?thesis
    by (simp add: rowLogoUrl_def resolvedLogo_def registryLogo_def objGet_def
        companyLogoMap_lookup jsTruthy_def Let_def)
next
  case (Some c)
  then show ?thesis
    by (cases "c_logo c")
      (simp_all add: rowLogoUrl_def resolvedLogo_def registryLogo_def objGet_def
        companyLogoMap_lookup jsTruthy_def truthy_def Let_def)
qed

theorem rowLogoUrl_resolution_witness:
  "normalizeCompanyName (row_company (studentRow (hd (students exampleState)))) = ''google''
   \<and> rowLogoUrl (companyLogoMap (companies exampleState))
         (studentRow (hd (students exampleState)))
       = JsString ''https://res.cloudinary.com/demo/image/upload/company_logos/google.png''
   \<and> normalizeCompanyName (row_company localLogoRow) = ''acme''
   \<and> rowLogoUrl (companyLogoMap (companies exampleState)) localLogoRow
       = JsString ''/api/logos/cloudinary.com.png''"
proof -
  have a: "normalizeCompanyName (row_company (studentRow (hd (students exampleState))))
             = ''google''" by code_simp
  have b: "normalizeCompanyName (row_company localLogoRow) = ''acme''" by code_simp
  have c: "resolvedLogo (\<lambda>l. strIncludes l ''cloudinary.com'') (companies exampleState)
             (studentRow (hd (students exampleState)))
           = ''https://res.cloudinary.com/demo/image/upload/company_logos/google.png''"
    by code_simp
  have d: "resolvedLogo (\<lambda>l. strIncludes l ''cloudinary.com'') (companies exampleState)
             localLogoRow = ''/api/logos/cloudinary.com.png''"
    by code_simp
  have a': "normalizeCompanyName (row_company (studentRow (hd (students exampleState))))
              \<noteq> ''constructor''" using a by simp
  have b': "normalizeCompanyName (row_company localLogoRow) \<noteq> ''constructor''"
    using b by simp
  from rowLogoUrl_resolution [OF a', of "companies exampleState"]
    rowLogoUrl_resolution [OF b', of "companies exampleState"] a b c d
  show ?thesis by simp
qed






text \<open>
  Claim C9. Two calls of \<open>markAsRead\<close> with the id of a notification, by a caller who is
  logged in: both are answered with \<open>{ success: true }\<close>, the notification is read after
  the first call and after the second, and the second call changes nothing.
\<close>

theorem markRead_twice:
  assumes session: "r_session req = Some u"
    and ident: "r_id req = Some s" "s \<noteq> []" "castObjectId e s = Some i"
    and present: "find (\<lambda>n. n_oid n = i) (notifications st) = Some n"
  shows "fst (markRead e req st) = Success
     \<and> find (\<lambda>n. n_oid n = i) (notifications (snd (markRead e req st)))
         = Some (n\<lparr>n_read := True\<rparr>)
     \<and> fst (markRead e req (snd (markRead e req st))) = Success
     \<and> find (\<lambda>n. n_oid n = i) (notifications (snd (markRead e req (snd (markRead e req st)))))
         = Some (n\<lparr>n_read := True\<rparr>)
     \<and> snd (markRead e req (snd (markRead e req st))) = snd (markRead e req st)"
  using assms
  by (simp add: markRead_def findByIdAndUpdate_def truthy_def find_updateFirst
      updateFirst_idem Let_def)

theorem markRead_twice_witness:
  "r_session readRequest = Some asha
   \<and> castObjectId exampleEnv ''65f0a1b2c3d4e5f601234540'' = Some 40
   \<and> map_option n_read (find (\<lambda>n. n_oid n = 40) (notifications exampleState)) = Some False
   \<and> fst (markRead exampleEnv readRequest exampleState) = Success
   \<and> map_option n_read (find (\<lambda>n. n_oid n = 40)
        (notifications (snd (markRead exampleEnv readRequest exampleState)))) = Some True
   \<and> fst (markRead exampleEnv readRequest (snd (markRead exampleEnv readRequest exampleState)))
       = Success
   \<and> map_option n_read (find (\<lambda>n. n_oid n = 40)
        (notifications (snd (markRead exampleEnv readRequest
           (snd (markRead exampleEnv readRequest exampleState)))))) = Some True"
proof -
  have a: "r_session readRequest = Some asha" by code_simp
  have b: "r_id readRequest = Some ''65f0a1b2c3d4e5f601234540''" by code_simp
  have c: "castObjectId exampleEnv ''65f0a1b2c3d4e5f601234540'' = Some 40" by code_simp
  have d: "find (\<lambda>n. n_oid n = 40) (notifications exampleState)
             = Some (hd (notifications exampleState))" by code_simp
  have f: "n_read (hd (notifications exampleState)) = False" by code_simp
  from markRead_twice [OF a b _ c d] a c d f show ?thesis by simp
qed

text \<open>
  Claim C10. In the admin verification the target status is verified exactly when the
  action is \<open>approve\<close>, and rejected for every other action, a missing one (\<open>None\<close>)
  included. For an admin and an id that Mongoose can cast, the answer is
  \<open>{ success: true }\<close> whatever the action is, and the record with that id, if there is
  one, gets the target status.
\<close>

theorem verify_action_two_way:
  assumes admin: "requireAdmin req = None"
    and ident: "r_id req = Some s" "castObjectId e s = Some i"
  shows "(verifyStatus action = Verified) = (action = Some ''approve'')
     \<and> (verifyStatus action = Rejected) = (action \<noteq> Some ''approve'')
     \<and> fst (adminVerify e (req\<lparr>r_action := action\<rparr>) st) = Success
     \<and> (r_type req = Some ''placement'' \<longrightarrow>
          find (\<lambda>p. p_oid p = i) (placements (snd (adminVerify e (req\<lparr>r_action := action\<rparr>) st)))
            = map_option (\<lambda>p. p\<lparr>p_status := verifyStatus action\<rparr>)
                (find (\<lambda>p. p_oid p = i) (placements st)))
     \<and> (r_type req = Some ''original'' \<longrightarrow>
          find (\<lambda>s. s_oid s = i) (students (snd (adminVerify e (req\<lparr>r_action := action\<rparr>) st)))
            = map_option (\<lambda>s. s\<lparr>s_status := verifyStatus action\<rparr>)
                (find (\<lambda>s. s_oid s = i) (students st)))"
proof -
  have adm: "requireAdmin (req\<lparr>r_action := action\<rparr>) = None"
    using admin by (simp add: requireAdmin_def split: if_splits)
  have 1: "(verifyStatus action = Verified) = (action = Some ''approve'')"
    and 2: "(verifyStatus action = Rejected) = (action \<noteq> Some ''approve'')"
    by (simp_all add: verifyStatus_def)
  have 3: "fst (adminVerify e (req\<lparr>r_action := action\<rparr>) st) = Success"
    using adm ident
    by (auto simp: adminVerify_def findByIdAndUpdate_def verifyFinish_def Let_def
        split: option.splits)
  have 4: "r_type req = Some ''placement'' \<Longrightarrow>
          find (\<lambda>p. p_oid p = i) (placements (snd (adminVerify e (req\<lparr>r_action := action\<rparr>) st)))
            = map_option (\<lambda>p. p\<lparr>p_status := verifyStatus action\<rparr>)
                (find (\<lambda>p. p_oid p = i) (placements st))"
    using adm ident
    by (auto simp: adminVerify_def findByIdAndUpdate_def verifyFinish_def Let_def
        find_updateFirst updateFirst_none split: option.splits)
  have 5: "r_type req = Some ''original'' \<Longrightarrow>
          find (\<lambda>s. s_oid s = i) (students (snd (adminVerify e (req\<lparr>r_action := action\<rparr>) st)))
            = map_option (\<lambda>s. s\<lparr>s_status := verifyStatus action\<rparr>)
                (find (\<lambda>s. s_oid s = i) (students st))"
    using adm ident
    by (auto simp: adminVerify_def findByIdAndUpdate_def verifyFinish_def Let_def
        find_updateFirst updateFirst_none split: option.splits)
  from 1 2 3 4 5 show ?thesis by blast
qed

theorem verify_action_two_way_witness:
  "requireAdmin misspeltRequest = None
   \<and> r_action misspeltRequest = Some ''aprove''
   \<and> map_option p_status (find (\<lambda>p. p_oid p = 1) (placements exampleState)) = Some Verified
   \<and> fst (adminVerify exampleEnv (misspeltRequest\<lparr>r_action := Some ''aprove''\<rparr>) exampleState)
       = Success
   \<and> map_option p_status (find (\<lambda>p. p_oid p = 1)
        (placements (snd (adminVerify exampleEnv (misspeltRequest\<lparr>r_action := Some ''aprove''\<rparr>)
           exampleState)))) = Some Rejected
   \<and> fst (adminVerify exampleEnv (misspeltRequest\<lparr>r_action := None\<rparr>) exampleState) = Success
   \<and> map_option p_status (find (\<lambda>p. p_oid p = 1)
        (placements (snd (adminVerify exampleEnv (misspeltRequest\<lparr>r_action := None\<rparr>)
           exampleState)))) = Some Rejected"
proof -
  have a: "requireAdmin misspeltRequest = None" by code_simp
  have b: "r_id misspeltRequest = Some ''65f0a1b2c3d4e5f601234501''" by code_simp
  have c: "castObjectId exampleEnv ''65f0a1b2c3d4e5f601234501'' = Some 1" by code_simp
  have d: "r_type misspeltRequest = Some ''placement''" by code_simp
  have f: "r_action misspeltRequest = Some ''aprove''" by code_simp
  have g: "find (\<lambda>p. p_oid p = 1) (placements exampleState)
             = Some (hd (placements exampleState))" by code_simp
  have h: "p_status (hd (placements exampleState)) = Verified" by code_simp
  from verify_action_two_way [OF a b c, of "Some ''aprove''" exampleState]
    verify_action_two_way [OF a b c, of None exampleState] a d f g h
  show ?thesis by simp
qed

end
